theory Spec2Isabelle
  imports Complex_Main
begin

section \<open>Data model (core/models.py, workers/base.py)\<close>

text \<open>
  The three status enumerations. The members keep their source names; the job and worker
  members carry a prefix because \<open>FAILED\<close> and \<open>COMPLETED\<close> occur in more than one
  enumeration.
\<close>

datatype WorkUnitStatus = PENDING | ASSIGNED | PROCESSING | COMPLETED | FAILED

datatype JobStatus =
  J_CREATED | J_TESTING | J_READY | J_RUNNING | J_PAUSED | J_POST_PROCESSING
  | J_COMPLETED | J_FAILED

datatype WorkerStatus = W_IDLE | W_BUSY | W_FAILED | W_TERMINATED

text \<open>
  A \<open>datetime\<close> is a point on a discrete time line (microseconds). Python floats
  (\<open>cost_usd\<close>, \<open>execution_time_seconds\<close>) are modelled as exact rationals: rounding is
  not modelled. JSON-shaped values (\<open>Dict[str, Any]\<close>, \<open>List[Dict[str, Any]]\<close>) are
  the datatype \<open>json\<close>; a dict is an association list in insertion order.
\<close>

datatype datetime = Datetime nat

datatype json =
  JNull | JBool bool | JInt int | JFloat rat | JStr string
  | JList "json list" | JDict "(string \<times> json) list"

type_synonym pydict = "(string \<times> json) list"

text \<open>Python truthiness of a JSON-shaped value (\<open>if x:\<close>).\<close>

fun truthy :: "json \<Rightarrow> bool" where
  "truthy JNull = False"
| "truthy (JBool b) = b"
| "truthy (JInt n) = (n \<noteq> 0)"
| "truthy (JFloat x) = (x \<noteq> 0)"
| "truthy (JStr s) = (s \<noteq> [])"
| "truthy (JList xs) = (xs \<noteq> [])"
| "truthy (JDict d) = (d \<noteq> [])"

text \<open>Truthiness of an optional value whose inner value is falsy when empty or zero.\<close>

definition truthy_str :: "string option \<Rightarrow> bool" where
  "truthy_str s = (case s of None \<Rightarrow> False | Some t \<Rightarrow> t \<noteq> [])"

definition truthy_dict :: "pydict option \<Rightarrow> bool" where
  "truthy_dict d = (case d of None \<Rightarrow> False | Some kv \<Rightarrow> kv \<noteq> [])"

definition truthy_list :: "'a list option \<Rightarrow> bool" where
  "truthy_list l = (case l of None \<Rightarrow> False | Some xs \<Rightarrow> xs \<noteq> [])"

definition truthy_int :: "int option \<Rightarrow> bool" where
  "truthy_int n = (case n of None \<Rightarrow> False | Some i \<Rightarrow> i \<noteq> 0)"

definition truthy_float :: "rat option \<Rightarrow> bool" where
  "truthy_float x = (case x of None \<Rightarrow> False | Some r \<Rightarrow> r \<noteq> 0)"

text \<open>\<open>d.get(k)\<close> and \<open>d[k] = v\<close> on a dict.\<close>

definition dict_get :: "pydict \<Rightarrow> string \<Rightarrow> json option" where
  "dict_get d k = map_of d k"

fun dict_set :: "pydict \<Rightarrow> string \<Rightarrow> json \<Rightarrow> pydict" where
  "dict_set [] k v = [(k, v)]"
| "dict_set ((k', v') # d) k v =
     (if k' = k then (k, v) # d else (k', v') # dict_set d k v)"

record WorkUnit =
  u_unit_id :: string
  u_job_id :: string
  u_unit_type :: string
  u_status :: WorkUnitStatus
  u_payload :: pydict
  u_created_at :: datetime
  u_assigned_at :: "datetime option"
  u_started_at :: "datetime option"
  u_completed_at :: "datetime option"
  u_worker_id :: "string option"
  u_result :: "pydict option"
  u_error :: "string option"
  u_retry_count :: int
  u_max_retries :: int
  u_execution_time_seconds :: "rat option"
  u_output_files :: "string list"
  u_rendered_prompt :: "string option"
  u_conversation :: "json list option"
  u_session_id :: "string option"
  u_cost_usd :: "rat option"
  u_process_id :: "int option"

record Job =
  j_job_id :: string
  j_name :: string
  j_description :: string
  j_status :: JobStatus
  j_worker_prompt_template :: string
  j_unit_type :: string
  j_total_units :: int
  j_created_at :: datetime
  j_completed_units :: int
  j_failed_units :: int
  j_max_workers :: int
  j_started_at :: "datetime option"
  j_completed_at :: "datetime option"
  j_test_unit_id :: "string option"
  j_test_passed :: bool
  j_output_strategy :: string
  j_metadata :: pydict
  j_post_processing_prompt :: "string option"
  j_post_processing_unit_id :: "string option"
  j_bypass_failures :: bool

record WorkerProcess =
  w_worker_id :: string
  w_status :: WorkerStatus
  w_job_id :: "string option"
  w_current_unit_id :: "string option"
  w_process_id :: "int option"
  w_started_at :: datetime
  w_last_heartbeat :: "datetime option"
  w_units_completed :: int
  w_units_failed :: int
  w_total_execution_time :: rat

text \<open>
  \<open>WorkerResult\<close> after \<open>__post_init__\<close>: \<open>output_files\<close>, \<open>metadata\<close> and
  \<open>conversation\<close> are never \<open>None\<close>.
\<close>

record WorkerResult =
  r_success :: bool
  r_output :: "string option"
  r_error :: "string option"
  r_execution_time :: "rat option"
  r_output_files :: "string list"
  r_metadata :: pydict
  r_conversation :: "json list"
  r_rendered_prompt :: "string option"

definition can_retry :: "WorkUnit \<Rightarrow> bool" where
  "can_retry u = (u_retry_count u < u_max_retries u)"

definition json_of_str_opt :: "string option \<Rightarrow> json" where
  "json_of_str_opt s = (case s of None \<Rightarrow> JNull | Some t \<Rightarrow> JStr t)"

definition json_of_float_opt :: "rat option \<Rightarrow> json" where
  "json_of_float_opt x = (case x of None \<Rightarrow> JNull | Some r \<Rightarrow> JFloat r)"

text \<open>\<open>WorkerResult.to_dict\<close>.\<close>

definition result_to_dict :: "WorkerResult \<Rightarrow> pydict" where
  "result_to_dict r =
     [(''success'', JBool (r_success r)),
      (''output'', json_of_str_opt (r_output r)),
      (''error'', json_of_str_opt (r_error r)),
      (''execution_time'', json_of_float_opt (r_execution_time r)),
      (''output_files'', JList (map JStr (r_output_files r))),
      (''metadata'', JDict (r_metadata r)),
      (''conversation'', JList (r_conversation r)),
      (''rendered_prompt'', json_of_str_opt (r_rendered_prompt r))]"

section \<open>Final status of a job (core/job_executor.py)\<close>

text \<open>
  \<open>JobExecutor._determine_final_status\<close>. \<open>post_unit and post_unit.status == ...\<close> is
  falsy for \<open>None\<close>; \<open>not job.post_processing_prompt\<close> holds for \<open>None\<close> and for the
  empty string. The log calls write to the logs table only and are left out.
\<close>

definition determine_final_status :: "Job \<Rightarrow> WorkUnit option \<Rightarrow> JobStatus" where
  "determine_final_status job post_unit =
     (let all_units_done = (j_completed_units job + j_failed_units job = j_total_units job);
          all_succeeded = (j_completed_units job = j_total_units job);
          post_processing_failed =
            (case post_unit of None \<Rightarrow> False | Some p \<Rightarrow> u_status p = FAILED);
          post_processing_succeeded =
            (case post_unit of None \<Rightarrow> False | Some p \<Rightarrow> u_status p = COMPLETED)
      in if post_processing_failed then J_FAILED
         else if all_succeeded
                 \<and> (\<not> truthy_str (j_post_processing_prompt job) \<or> post_processing_succeeded)
           then J_COMPLETED
         else if j_bypass_failures job \<and> post_processing_succeeded then J_COMPLETED
         else if j_failed_units job > 0 \<and> all_units_done then J_FAILED
         else J_PAUSED)"

text \<open>
  The rule table of the specification, section 4.6, written from its words: a function of
  the six inputs it names, the rows tried in the order given.
\<close>

definition final_status_table ::
  "bool \<Rightarrow> bool \<Rightarrow> bool \<Rightarrow> bool \<Rightarrow> bool \<Rightarrow> WorkUnitStatus option \<Rightarrow> JobStatus" where
  "final_status_table all_units_done all_succeeded bypass_failures has_prompt
       some_failed post_status =
     (if post_status = Some FAILED then J_FAILED
      else if all_succeeded \<and> (\<not> has_prompt \<or> post_status = Some COMPLETED) then J_COMPLETED
      else if bypass_failures \<and> post_status = Some COMPLETED then J_COMPLETED
      else if some_failed \<and> all_units_done then J_FAILED
      else J_PAUSED)"

section \<open>Repository (persistence/repository.py)\<close>

text \<open>
  The database is a record of four tables, each a list of rows in insertion order. A row
  is a record with one field per column of the schema (including the columns that
  \<open>_migrate_schema\<close> adds); a nullable column is an \<open>option\<close>. A \<open>TEXT\<close> column that
  holds \<open>json.dumps(v)\<close> is represented by \<open>v\<close>, one that holds \<open>d.isoformat()\<close> by
  \<open>d\<close>, and the status column by the enumeration member whose \<open>.value\<close> it holds:
  such a text is never empty, so \<open>if row[c]\<close> is false exactly for \<open>NULL\<close>, and
  \<open>json.loads\<close>, \<open>datetime.fromisoformat\<close> and the enumeration constructor give the
  value back.
\<close>

record job_row =
  jr_job_id :: string
  jr_name :: string
  jr_description :: string
  jr_status :: JobStatus
  jr_worker_prompt_template :: string
  jr_unit_type :: string
  jr_total_units :: int
  jr_completed_units :: int
  jr_failed_units :: int
  jr_max_workers :: int
  jr_created_at :: datetime
  jr_started_at :: "datetime option"
  jr_completed_at :: "datetime option"
  jr_test_unit_id :: "string option"
  jr_test_passed :: int
  jr_output_strategy :: string
  jr_metadata :: "pydict option"
  jr_post_processing_prompt :: "string option"
  jr_post_processing_unit_id :: "string option"
  jr_bypass_failures :: int

record unit_row =
  ur_unit_id :: string
  ur_job_id :: string
  ur_unit_type :: string
  ur_status :: WorkUnitStatus
  ur_payload :: pydict
  ur_created_at :: datetime
  ur_assigned_at :: "datetime option"
  ur_started_at :: "datetime option"
  ur_completed_at :: "datetime option"
  ur_worker_id :: "string option"
  ur_result :: "pydict option"
  ur_error :: "string option"
  ur_retry_count :: int
  ur_max_retries :: int
  ur_execution_time_seconds :: "rat option"
  ur_output_files :: "string list option"
  ur_rendered_prompt :: "string option"
  ur_conversation :: "json list option"
  ur_session_id :: "string option"
  ur_cost_usd :: "rat option"
  ur_process_id :: "int option"

record worker_row =
  wr_worker_id :: string
  wr_status :: WorkerStatus
  wr_job_id :: "string option"
  wr_current_unit_id :: "string option"
  wr_process_id :: "int option"
  wr_started_at :: datetime
  wr_last_heartbeat :: "datetime option"
  wr_units_completed :: int
  wr_units_failed :: int
  wr_total_execution_time :: rat

record log_row =
  lr_id :: int
  lr_job_id :: string
  lr_source :: string
  lr_level :: string
  lr_message :: string
  lr_timestamp :: datetime
  lr_worker_id :: "string option"
  lr_unit_id :: "string option"
  lr_extra :: "pydict option"

record Repository =
  db_jobs :: "job_row list"
  db_work_units :: "unit_row list"
  db_workers :: "worker_row list"
  db_logs :: "log_row list"

text \<open>\<open>int(b)\<close> and \<open>bool(n)\<close>.\<close>

definition int_of_bool :: "bool \<Rightarrow> int" where
  "int_of_bool b = (if b then 1 else 0)"

definition bool_of_int :: "int \<Rightarrow> bool" where
  "bool_of_int n = (n \<noteq> 0)"

subsection \<open>Rows written and rows read\<close>

text \<open>The parameter tuple of the \<open>INSERT\<close> in \<open>create_job\<close>, column by column.\<close>

definition job_to_row :: "Job \<Rightarrow> job_row" where
  "job_to_row job =
     \<lparr> jr_job_id = j_job_id job,
       jr_name = j_name job,
       jr_description = j_description job,
       jr_status = j_status job,
       jr_worker_prompt_template = j_worker_prompt_template job,
       jr_unit_type = j_unit_type job,
       jr_total_units = j_total_units job,
       jr_completed_units = j_completed_units job,
       jr_failed_units = j_failed_units job,
       jr_max_workers = j_max_workers job,
       jr_created_at = j_created_at job,
       jr_started_at = j_started_at job,
       jr_completed_at = j_completed_at job,
       jr_test_unit_id = j_test_unit_id job,
       jr_test_passed = int_of_bool (j_test_passed job),
       jr_output_strategy = j_output_strategy job,
       jr_metadata = Some (j_metadata job),
       jr_post_processing_prompt = j_post_processing_prompt job,
       jr_post_processing_unit_id = j_post_processing_unit_id job,
       jr_bypass_failures = int_of_bool (j_bypass_failures job) \<rparr>"

text \<open>The \<open>SET\<close> list of the \<open>UPDATE\<close> in \<open>update_job\<close>; the other columns stay.\<close>

definition job_update_row :: "Job \<Rightarrow> job_row \<Rightarrow> job_row" where
  "job_update_row job row =
     row\<lparr> jr_status := j_status job,
          jr_completed_units := j_completed_units job,
          jr_failed_units := j_failed_units job,
          jr_started_at := j_started_at job,
          jr_completed_at := j_completed_at job,
          jr_test_unit_id := j_test_unit_id job,
          jr_test_passed := int_of_bool (j_test_passed job),
          jr_metadata := Some (j_metadata job),
          jr_post_processing_prompt := j_post_processing_prompt job,
          jr_post_processing_unit_id := j_post_processing_unit_id job,
          jr_bypass_failures := int_of_bool (j_bypass_failures job) \<rparr>"

text \<open>\<open>_row_to_job\<close>.\<close>

definition row_to_job :: "job_row \<Rightarrow> Job" where
  "row_to_job row =
     \<lparr> j_job_id = jr_job_id row,
       j_name = jr_name row,
       j_description = jr_description row,
       j_status = jr_status row,
       j_worker_prompt_template = jr_worker_prompt_template row,
       j_unit_type = jr_unit_type row,
       j_total_units = jr_total_units row,
       j_created_at = jr_created_at row,
       j_completed_units = jr_completed_units row,
       j_failed_units = jr_failed_units row,
       j_max_workers = jr_max_workers row,
       j_started_at = jr_started_at row,
       j_completed_at = jr_completed_at row,
       j_test_unit_id = jr_test_unit_id row,
       j_test_passed = bool_of_int (jr_test_passed row),
       j_output_strategy = jr_output_strategy row,
       j_metadata = (case jr_metadata row of None \<Rightarrow> [] | Some m \<Rightarrow> m),
       j_post_processing_prompt = jr_post_processing_prompt row,
       j_post_processing_unit_id = jr_post_processing_unit_id row,
       j_bypass_failures = bool_of_int (jr_bypass_failures row) \<rparr>"

text \<open>
  The parameter tuple of the \<open>INSERT\<close> in \<open>create_work_unit\<close>. \<open>result\<close> and
  \<open>conversation\<close> are written as \<open>NULL\<close> when falsy (\<open>json.dumps(x) if x else None\<close>).
  The column list of the statement does not name \<open>process_id\<close>, so the new row holds
  \<open>NULL\<close> there.
\<close>

definition unit_to_row :: "WorkUnit \<Rightarrow> unit_row" where
  "unit_to_row unit =
     \<lparr> ur_unit_id = u_unit_id unit,
       ur_job_id = u_job_id unit,
       ur_unit_type = u_unit_type unit,
       ur_status = u_status unit,
       ur_payload = u_payload unit,
       ur_created_at = u_created_at unit,
       ur_assigned_at = u_assigned_at unit,
       ur_started_at = u_started_at unit,
       ur_completed_at = u_completed_at unit,
       ur_worker_id = u_worker_id unit,
       ur_result = (if truthy_dict (u_result unit) then u_result unit else None),
       ur_error = u_error unit,
       ur_retry_count = u_retry_count unit,
       ur_max_retries = u_max_retries unit,
       ur_execution_time_seconds = u_execution_time_seconds unit,
       ur_output_files = Some (u_output_files unit),
       ur_rendered_prompt = u_rendered_prompt unit,
       ur_conversation =
         (if truthy_list (u_conversation unit) then u_conversation unit else None),
       ur_session_id = u_session_id unit,
       ur_cost_usd = u_cost_usd unit,
       ur_process_id = None \<rparr>"

text \<open>The \<open>SET\<close> list of the \<open>UPDATE\<close> in \<open>update_work_unit\<close>.\<close>

definition unit_update_row :: "WorkUnit \<Rightarrow> unit_row \<Rightarrow> unit_row" where
  "unit_update_row unit row =
     row\<lparr> ur_status := u_status unit,
          ur_assigned_at := u_assigned_at unit,
          ur_started_at := u_started_at unit,
          ur_completed_at := u_completed_at unit,
          ur_worker_id := u_worker_id unit,
          ur_result := (if truthy_dict (u_result unit) then u_result unit else None),
          ur_error := u_error unit,
          ur_retry_count := u_retry_count unit,
          ur_execution_time_seconds := u_execution_time_seconds unit,
          ur_output_files := Some (u_output_files unit),
          ur_rendered_prompt := u_rendered_prompt unit,
          ur_conversation :=
            (if truthy_list (u_conversation unit) then u_conversation unit else None),
          ur_session_id := u_session_id unit,
          ur_cost_usd := u_cost_usd unit,
          ur_process_id := u_process_id unit \<rparr>"

text \<open>\<open>_row_to_work_unit\<close>.\<close>

definition row_to_work_unit :: "unit_row \<Rightarrow> WorkUnit" where
  "row_to_work_unit row =
     \<lparr> u_unit_id = ur_unit_id row,
       u_job_id = ur_job_id row,
       u_unit_type = ur_unit_type row,
       u_status = ur_status row,
       u_payload = ur_payload row,
       u_created_at = ur_created_at row,
       u_assigned_at = ur_assigned_at row,
       u_started_at = ur_started_at row,
       u_completed_at = ur_completed_at row,
       u_worker_id = ur_worker_id row,
       u_result = ur_result row,
       u_error = ur_error row,
       u_retry_count = ur_retry_count row,
       u_max_retries = ur_max_retries row,
       u_execution_time_seconds = ur_execution_time_seconds row,
       u_output_files = (case ur_output_files row of None \<Rightarrow> [] | Some fs \<Rightarrow> fs),
       u_rendered_prompt = ur_rendered_prompt row,
       u_conversation = ur_conversation row,
       u_session_id = ur_session_id row,
       u_cost_usd = ur_cost_usd row,
       u_process_id = ur_process_id row \<rparr>"

text \<open>The parameter tuple of the \<open>INSERT\<close> in \<open>create_worker\<close>.\<close>

definition worker_to_row :: "WorkerProcess \<Rightarrow> worker_row" where
  "worker_to_row worker =
     \<lparr> wr_worker_id = w_worker_id worker,
       wr_status = w_status worker,
       wr_job_id = w_job_id worker,
       wr_current_unit_id = w_current_unit_id worker,
       wr_process_id = w_process_id worker,
       wr_started_at = w_started_at worker,
       wr_last_heartbeat = w_last_heartbeat worker,
       wr_units_completed = w_units_completed worker,
       wr_units_failed = w_units_failed worker,
       wr_total_execution_time = w_total_execution_time worker \<rparr>"

text \<open>The \<open>SET\<close> list of the \<open>UPDATE\<close> in \<open>update_worker\<close>.\<close>

definition worker_update_row :: "WorkerProcess \<Rightarrow> worker_row \<Rightarrow> worker_row" where
  "worker_update_row worker row =
     row\<lparr> wr_status := w_status worker,
          wr_job_id := w_job_id worker,
          wr_current_unit_id := w_current_unit_id worker,
          wr_last_heartbeat := w_last_heartbeat worker,
          wr_units_completed := w_units_completed worker,
          wr_units_failed := w_units_failed worker,
          wr_total_execution_time := w_total_execution_time worker \<rparr>"

text \<open>\<open>_row_to_worker\<close>.\<close>

definition row_to_worker :: "worker_row \<Rightarrow> WorkerProcess" where
  "row_to_worker row =
     \<lparr> w_worker_id = wr_worker_id row,
       w_status = wr_status row,
       w_job_id = wr_job_id row,
       w_current_unit_id = wr_current_unit_id row,
       w_process_id = wr_process_id row,
       w_started_at = wr_started_at row,
       w_last_heartbeat = wr_last_heartbeat row,
       w_units_completed = wr_units_completed row,
       w_units_failed = wr_units_failed row,
       w_total_execution_time = wr_total_execution_time row \<rparr>"

subsection \<open>The connection, its transaction and the statements\<close>

text \<open>
  Exceptions are values: \<open>SqliteError\<close> stands for \<open>sqlite3.Error\<close> and its subclasses,
  \<open>OtherError\<close> for every other exception. The database layer is an environment that
  may report an error at each call the repository makes on it: \<open>F c\<close> says that call
  \<open>c\<close> raises \<open>sqlite3.Error\<close> (\<open>Execute n\<close> is the \<open>n\<close>-th \<open>conn.execute\<close> of the
  with-block). \<open>conn.close()\<close> reports no error.
\<close>

datatype pyexn = SqliteError | OtherError

datatype db_call =
  Connect | Pragma_journal_mode | Pragma_synchronous | Execute nat | Commit | Rollback

type_synonym faults = "db_call \<Rightarrow> bool"

definition no_faults :: faults where
  "no_faults = (\<lambda>c. False)"

text \<open>
  \<open>Repository._get_connection\<close>, a context manager around the body of a with-block. The
  body works on the connection's view of the tables. Leaving the block normally commits,
  which makes the view the database; an exception in the body or in the commit runs
  \<open>conn.rollback()\<close> and is raised again, so the database keeps its old tables. An error
  in \<open>connect\<close> or in one of the two pragmas is raised before the body runs.
\<close>

definition get_connection ::
  "faults \<Rightarrow> (Repository \<Rightarrow> pyexn + 'a \<times> Repository) \<Rightarrow> Repository
     \<Rightarrow> (pyexn + 'a) \<times> Repository" where
  "get_connection F body db =
     (if F Connect then (Inl SqliteError, db)
      else if F Pragma_journal_mode then (Inl SqliteError, db)
      else if F Pragma_synchronous then (Inl SqliteError, db)
      else (case body db of
              Inr (v, db') \<Rightarrow>
                (if F Commit then (Inl SqliteError, db) else (Inr v, db'))
            | Inl e \<Rightarrow> ((if F Rollback then Inl SqliteError else Inl e), db)))"

text \<open>\<open>conn.execute(statement)\<close>: the layer may report an error, else the statement runs.\<close>

definition conn_execute ::
  "faults \<Rightarrow> nat \<Rightarrow> (Repository \<Rightarrow> pyexn + 'a) \<Rightarrow> Repository \<Rightarrow> pyexn + 'a" where
  "conn_execute F n stmt db = (if F (Execute n) then Inl SqliteError else stmt db)"

text \<open>
  The frame every mutation shares:
  \<^verbatim>\<open>try: with self._get_connection() as conn: ...; return True
except sqlite3.Error: return False\<close>
\<close>

definition db_op ::
  "faults \<Rightarrow> (Repository \<Rightarrow> pyexn + bool \<times> Repository) \<Rightarrow> Repository
     \<Rightarrow> (pyexn + bool) \<times> Repository" where
  "db_op F body db =
     (case get_connection F body db of
        (Inr b, db') \<Rightarrow> (Inr b, db')
      | (Inl SqliteError, db') \<Rightarrow> (Inr False, db')
      | (Inl OtherError, db') \<Rightarrow> (Inl OtherError, db'))"


definition update_job_rows :: "Job \<Rightarrow> Repository \<Rightarrow> Repository" where
  "update_job_rows job db =
     db\<lparr>db_jobs :=
          map (\<lambda>r. if jr_job_id r = j_job_id job then job_update_row job r else r)
            (db_jobs db)\<rparr>"


definition update_unit_rows ::
  "string \<Rightarrow> (unit_row \<Rightarrow> unit_row) \<Rightarrow> Repository \<Rightarrow> Repository" where
  "update_unit_rows unit_id f db =
     db\<lparr>db_work_units :=
          map (\<lambda>r. if ur_unit_id r = unit_id then f r else r) (db_work_units db)\<rparr>"


definition update_worker_rows :: "WorkerProcess \<Rightarrow> Repository \<Rightarrow> Repository" where
  "update_worker_rows worker db =
     db\<lparr>db_workers :=
          map (\<lambda>r. if wr_worker_id r = w_worker_id worker then worker_update_row worker r
                    else r)
            (db_workers db)\<rparr>"



subsection \<open>The mutations\<close>


definition update_job :: "faults \<Rightarrow> Repository \<Rightarrow> Job \<Rightarrow> (pyexn + bool) \<times> Repository" where
  "update_job F db job =
     db_op F (\<lambda>d. map_sum id (Pair True)
                     (conn_execute F 0 (\<lambda>d'. Inr (update_job_rows job d')) d)) db"


definition update_work_unit ::
  "faults \<Rightarrow> Repository \<Rightarrow> WorkUnit \<Rightarrow> (pyexn + bool) \<times> Repository" where
  "update_work_unit F db unit =
     db_op F (\<lambda>d. map_sum id (Pair True)
                     (conn_execute F 0
                        (\<lambda>d'. Inr (update_unit_rows (u_unit_id unit) (unit_update_row unit) d'))
                        d)) db"


definition update_worker ::
  "faults \<Rightarrow> Repository \<Rightarrow> WorkerProcess \<Rightarrow> (pyexn + bool) \<times> Repository" where
  "update_worker F db worker =
     db_op F (\<lambda>d. map_sum id (Pair True)
                     (conn_execute F 0 (\<lambda>d'. Inr (update_worker_rows worker d')) d)) db"




definition set_work_unit_process_id ::
  "faults \<Rightarrow> Repository \<Rightarrow> string \<Rightarrow> int option \<Rightarrow> (pyexn + bool) \<times> Repository" where
  "set_work_unit_process_id F db unit_id process_id =
     db_op F (\<lambda>d. map_sum id (Pair True)
                     (conn_execute F 0
                        (\<lambda>d'. Inr (update_unit_rows unit_id
                                     (\<lambda>r. r\<lparr>ur_process_id := process_id\<rparr>) d'))
                        d)) db"

subsection \<open>The queries and the recovery statement\<close>

text \<open>
  The read operations have no \<open>except\<close> clause; they are modelled for a database layer
  that reports no error. \<open>fetchone()\<close> is the first row the \<open>WHERE\<close> selects.
\<close>

definition get_job :: "Repository \<Rightarrow> string \<Rightarrow> Job option" where
  "get_job db job_id =
     map_option row_to_job (find (\<lambda>r. jr_job_id r = job_id) (db_jobs db))"

definition get_work_unit :: "Repository \<Rightarrow> string \<Rightarrow> WorkUnit option" where
  "get_work_unit db unit_id =
     map_option row_to_work_unit (find (\<lambda>r. ur_unit_id r = unit_id) (db_work_units db))"



text \<open>
  \<open>reset_stuck_units\<close> returns \<open>cursor.rowcount\<close>, the number of rows the \<open>UPDATE\<close>
  selected.
\<close>

definition is_stuck :: "string \<Rightarrow> unit_row \<Rightarrow> bool" where
  "is_stuck job_id r =
     (ur_job_id r = job_id \<and> (ur_status r = ASSIGNED \<or> ur_status r = PROCESSING))"

definition reset_stuck_units :: "Repository \<Rightarrow> string \<Rightarrow> int \<times> Repository" where
  "reset_stuck_units db job_id =
     (int (length (filter (is_stuck job_id) (db_work_units db))),
      db\<lparr>db_work_units :=
           map (\<lambda>r. if is_stuck job_id r
                     then r\<lparr>ur_status := PENDING, ur_worker_id := None,
                            ur_assigned_at := None, ur_started_at := None\<rparr>
                     else r)
             (db_work_units db)\<rparr>)"

text \<open>
  \<open>get_job_total_cost\<close>. \<open>SUM\<close> over no row is \<open>NULL\<close>; the function returns
  \<open>row["total"] if row and row["total"] else None\<close>, and the one row of an aggregate
  query is truthy.
\<close>

definition sql_sum :: "rat list \<Rightarrow> rat option" where
  "sql_sum xs = (if xs = [] then None else Some (sum_list xs))"

definition get_job_total_cost :: "Repository \<Rightarrow> string \<Rightarrow> rat option" where
  "get_job_total_cost db job_id =
     (let total = sql_sum (List.map_filter ur_cost_usd
                             (filter (\<lambda>r. ur_job_id r = job_id) (db_work_units db)))
      in if truthy_float total then total else None)"

section \<open>Executor callbacks and process controls (core/job_executor.py)\<close>


text \<open>\<open>JobExecutor._on_unit_complete\<close>.\<close>

definition on_unit_complete :: "Repository \<Rightarrow> string \<Rightarrow> WorkUnit \<Rightarrow> Repository" where
  "on_unit_complete db job_id unit =
     (case get_job db job_id of
        None \<Rightarrow> db
      | Some job \<Rightarrow>
          (let is_post_processing = (Some (u_unit_id unit) = j_post_processing_unit_id job)
           in if \<not> is_post_processing
              then snd (update_job no_faults db
                          (job\<lparr>j_completed_units := j_completed_units job + 1\<rparr>))
              else db))"

text \<open>
  \<open>JobExecutor._on_unit_failed\<close>. The unit is an object the caller goes on using, so the
  function returns it together with the database.
\<close>

definition on_unit_failed ::
  "Repository \<Rightarrow> string \<Rightarrow> WorkUnit \<Rightarrow> Repository \<times> WorkUnit" where
  "on_unit_failed db job_id unit =
     (let job = get_job db job_id;
          is_post_processing =
            (case job of None \<Rightarrow> False
             | Some j \<Rightarrow> Some (u_unit_id unit) = j_post_processing_unit_id j)
      in if can_retry unit
         then (let unit' = unit\<lparr> u_status := PENDING,
                                  u_retry_count := u_retry_count unit + 1,
                                  u_worker_id := None,
                                  u_assigned_at := None,
                                  u_started_at := None \<rparr>
               in (snd (update_work_unit no_faults db unit'), unit'))
         else (case job of
                 None \<Rightarrow> (db, unit)
               | Some j \<Rightarrow>
                   (if \<not> is_post_processing
                    then (snd (update_job no_faults db
                                 (j\<lparr>j_failed_units := j_failed_units j + 1\<rparr>)), unit)
                    else (db, unit))))"

text \<open>
  What the operating system answers to a signal: it is sent, or \<open>os.kill\<close> /
  \<open>os.killpg\<close> raises one of the two exceptions the source handles.
\<close>

datatype os_outcome = Sent | ProcessLookupError | PermissionError

definition failure :: "string \<Rightarrow> pydict" where
  "failure msg = [(''success'', JBool False), (''error'', JStr msg)]"

text \<open>
  \<open>JobExecutor.kill_executor\<close>. \<open>probe\<close> is the outcome of \<open>os.kill(pid, 0)\<close>,
  \<open>killpg\<close> that of \<open>os.killpg(pid, SIGKILL)\<close>, \<open>kill\<close> that of the fallback
  \<open>os.kill(pid, SIGKILL)\<close>, and \<open>now\<close> is \<open>datetime.now().isoformat()\<close>.
\<close>

definition kill_executor ::
  "os_outcome \<Rightarrow> os_outcome \<Rightarrow> os_outcome \<Rightarrow> string \<Rightarrow> Repository \<Rightarrow> string
     \<Rightarrow> pydict \<times> Repository" where
  "kill_executor probe killpg kill now db job_id =
     (case get_job db job_id of
        None \<Rightarrow> (failure ''Job not found'', db)
      | Some job \<Rightarrow>
          (case dict_get (j_metadata job) ''executor_pid'' of
             None \<Rightarrow> (failure ''No executor process found'', db)
           | Some pid \<Rightarrow>
               if \<not> truthy pid then (failure ''No executor process found'', db)
               else (case probe of
                  ProcessLookupError \<Rightarrow>
                    (let job' = job\<lparr> j_status := J_FAILED,
                                      j_metadata :=
                                        dict_set (dict_set (j_metadata job) ''killed_at'' (JStr now))
                                          ''kill_reason''
                                          (JStr ''User requested kill (process already dead)'') \<rparr>
                     in ([(''success'', JBool True),
                          (''message'', JStr ''Process was already dead, job marked as failed'')],
                         snd (update_job no_faults db job')))
                | PermissionError \<Rightarrow> (failure ''Permission denied to check process'', db)
                | Sent \<Rightarrow>
                    (case (case killpg of Sent \<Rightarrow> Sent | _ \<Rightarrow> kill) of
                       Sent \<Rightarrow>
                         (let job' = job\<lparr> j_status := J_FAILED,
                                           j_metadata :=
                                             dict_set
                                               (dict_set (j_metadata job) ''killed_at'' (JStr now))
                                               ''kill_reason'' (JStr ''User requested kill'') \<rparr>;
                              db1 = snd (update_job no_faults db job');
                              db2 = snd (reset_stuck_units db1 job_id)
                          in ([(''success'', JBool True),
                               (''message'', JStr ''Job executor killed''),
                               (''pid'', pid)],
                              db2))
                     | ProcessLookupError \<Rightarrow> (failure ''Process not found'', db)
                     | PermissionError \<Rightarrow>
                         (failure ''Permission denied to kill process'', db)))))"


definition succeeded :: "pydict \<Rightarrow> bool" where
  "succeeded res = (dict_get res ''success'' = Some (JBool True))"

section \<open>The worker body (core/worker_pool.py)\<close>

text \<open>\<open>metadata.get(k)\<close> read into a typed field: a string, or a number.\<close>

definition json_to_str :: "json option \<Rightarrow> string option" where
  "json_to_str v = (case v of Some (JStr s) \<Rightarrow> Some s | _ \<Rightarrow> None)"

definition json_to_float :: "json option \<Rightarrow> rat option" where
  "json_to_float v =
     (case v of Some (JFloat r) \<Rightarrow> Some r | Some (JInt n) \<Rightarrow> Some (of_int n) | _ \<Rightarrow> None)"

text \<open>
  The \<open>except Exception\<close> branch of \<open>_execute_work_unit\<close>: \<open>msg\<close> is \<open>str(e)\<close> and
  \<open>now\<close> the time of the branch.
\<close>

definition worker_crashed ::
  "Repository \<Rightarrow> string \<Rightarrow> WorkerProcess \<Rightarrow> WorkUnit \<Rightarrow> string \<Rightarrow> datetime
     \<Rightarrow> Repository \<times> WorkerProcess \<times> WorkUnit" where
  "worker_crashed db job_id worker unit msg now =
     (let unit1 = unit\<lparr> u_status := FAILED,
                          u_error := Some (''Unexpected error: '' @ msg),
                          u_completed_at := Some now \<rparr>;
          db1 = snd (update_work_unit no_faults db unit1);
          worker1 = worker\<lparr>w_units_failed := w_units_failed worker + 1\<rparr>;
          (db2, unit2) = on_unit_failed db1 job_id unit1
      in (db2, worker1, unit2))"

text \<open>
  \<open>WorkerPool._execute_work_unit\<close>, with the callbacks the executor installs. The driver
  is an external process: \<open>outcome\<close> is what \<open>worker_implementation.execute\<close> gives,
  \<open>Inr\<close> a result or \<open>Inl\<close> the text of an exception; \<open>pid\<close> is the process id passed
  to \<open>on_process_start\<close> if the process was started. The four times are the values of
  \<open>datetime.now()\<close> at the start, at the driver's return, in the exception branch and in
  the \<open>finally\<close> block. Rows written by \<open>on_stream_event\<close> while the driver runs touch
  the columns \<open>conversation\<close> and \<open>session_id\<close> only, which the \<open>update_work_unit\<close>
  after the driver's return overwrites on every path; they are left out. In the success
  branch the log message formats \<open>result.execution_time\<close> with \<open>:.1f\<close>, which raises
  \<open>TypeError\<close> for \<open>None\<close>.
\<close>

definition execute_work_unit ::
  "Repository \<Rightarrow> string \<Rightarrow> WorkerProcess \<Rightarrow> WorkUnit \<Rightarrow> int option
     \<Rightarrow> string + WorkerResult \<Rightarrow> datetime \<Rightarrow> datetime \<Rightarrow> datetime \<Rightarrow> datetime
     \<Rightarrow> Repository \<times> WorkerProcess \<times> WorkUnit" where
  "execute_work_unit db job_id worker work_unit pid outcome t_start t_return t_except t_finally =
     (let unit1 = work_unit\<lparr>u_status := PROCESSING, u_started_at := Some t_start\<rparr>;
          db1 = snd (update_work_unit no_faults db unit1);
          (db2, unit2) =
            (case pid of
               None \<Rightarrow> (db1, unit1)
             | Some p \<Rightarrow>
                 (snd (set_work_unit_process_id no_faults db1 (u_unit_id unit1) (Some p)),
                  unit1\<lparr>u_process_id := Some p\<rparr>));
          (db3, worker3, unit3) =
            (case outcome of
               Inl msg \<Rightarrow> worker_crashed db2 job_id worker unit2 msg t_except
             | Inr result \<Rightarrow>
                 (let unit4 = unit2\<lparr> u_completed_at := Some t_return,
                                      u_execution_time_seconds := r_execution_time result,
                                      u_output_files := r_output_files result,
                                      u_process_id := None,
                                      u_rendered_prompt := r_rendered_prompt result,
                                      u_conversation := Some (r_conversation result) \<rparr>;
                      unit5 = (if r_metadata result \<noteq> []
                               then unit4\<lparr> u_session_id :=
                                              json_to_str (dict_get (r_metadata result) ''session_id''),
                                            u_cost_usd :=
                                              json_to_float
                                                (dict_get (r_metadata result) ''total_cost_usd'') \<rparr>
                               else unit4)
                  in if r_success result
                     then (let unit6 = unit5\<lparr> u_status := COMPLETED,
                                               u_result := Some (result_to_dict result) \<rparr>;
                               worker1 = worker\<lparr> w_units_completed := w_units_completed worker + 1,
                                                  w_total_execution_time :=
                                                    w_total_execution_time worker
                                                    + (case r_execution_time result of
                                                         None \<Rightarrow> 0 | Some x \<Rightarrow> x) \<rparr>
                           in if r_execution_time result = None
                              then worker_crashed db2 job_id worker1 unit6
                                     ''unsupported format string passed to NoneType.__format__''
                                     t_except
                              else (let db4 = on_unit_complete db2 job_id unit6
                                    in (snd (update_work_unit no_faults db4 unit6), worker1, unit6)))
                     else (let unit6 = unit5\<lparr> u_status := FAILED,
                                               u_error := r_error result,
                                               u_result := Some (result_to_dict result) \<rparr>;
                               worker1 = worker\<lparr>w_units_failed := w_units_failed worker + 1\<rparr>;
                               (db4, unit7) = on_unit_failed db2 job_id unit6
                           in (snd (update_work_unit no_faults db4 unit7), worker1, unit7))));
          worker4 = worker3\<lparr> w_status := W_IDLE, w_current_unit_id := None,
                               w_last_heartbeat := Some t_finally \<rparr>
      in (snd (update_worker no_faults db3 worker4), worker4, unit3))"

section \<open>The test phase (core/orchestrator.py)\<close>



section \<open>Reading back what an update wrote\<close>

text \<open>
  \<open>persisted u0 unit\<close> is the work unit that \<open>get_work_unit\<close> returns after
  \<open>update_work_unit(unit)\<close> when the stored unit was \<open>u0\<close>: the columns outside the
  \<open>SET\<close> list keep the stored values, and a falsy \<open>result\<close> or \<open>conversation\<close> is
  read back as \<open>None\<close>.
\<close>

definition persisted :: "WorkUnit \<Rightarrow> WorkUnit \<Rightarrow> WorkUnit" where
  "persisted u0 unit =
     unit\<lparr> u_unit_id := u_unit_id u0, u_job_id := u_job_id u0,
           u_unit_type := u_unit_type u0, u_payload := u_payload u0,
           u_created_at := u_created_at u0, u_max_retries := u_max_retries u0,
           u_result := (if truthy_dict (u_result unit) then u_result unit else None),
           u_conversation :=
             (if truthy_list (u_conversation unit) then u_conversation unit else None) \<rparr>"


section \<open>Prompt rendering (workers/claude_cli_worker.py)\<close>

text \<open>
  \<open>_render_prompt\<close> calls the built-in \<open>str.format\<close> with keyword arguments only.
  The model of \<open>str.format\<close> follows CPython's formatter (a 64-bit build): the
  template is read from the left; \<open>{{\<close> and \<open>}}\<close> are literal braces; a single brace
  that opens no field raises \<open>ValueError\<close>; a field runs to its closing brace, with a
  name, an optional \<open>!conversion\<close> and an optional \<open>:format_spec\<close>; the part of the
  name before the first \<open>.\<close> or \<open>[\<close> is looked up, an empty or all-digit one among the
  positional arguments (there are none: \<open>IndexError\<close>), any other among the keyword
  arguments (\<open>KeyError\<close> when absent). The first exception ends the call.

  The text that Python computes from a value is not modelled: the output is a list of
  pieces, a character of the template or \<open>str(v)\<close>, \<open>repr(v)\<close>, \<open>ascii(v)\<close> of a
  value \<open>v\<close>. A field that is found and goes on to an attribute, an index or a
  non-empty format spec has an outcome that depends on Python's object protocol; for it
  the model answers \<open>None\<close>, which says nothing about the call.
\<close>

datatype fmt_error = KeyError string | IndexError | ValueError

datatype piece = Chr char | Str json | Repr json | Ascii json

type_synonym pytext = "piece list"

definition lit :: "string \<Rightarrow> pytext" where
  "lit s = map Chr s"

text \<open>
  The scan of a field name (\<open>parse_field\<close> in CPython): it ends at \<open>}\<close>, \<open>:\<close> or
  \<open>!\<close>, refuses \<open>{\<close>, and reads an index \<open>[...]\<close> through to its \<open>]\<close> without
  looking at the characters. The result is the name, the character that ended it and the
  rest of the template.
\<close>

fun scan_name :: "bool \<Rightarrow> string \<Rightarrow> fmt_error + (string \<times> char \<times> string)" where
  "scan_name in_index [] = Inl ValueError"
| "scan_name in_index (c # cs) =
     (if in_index then map_sum id (\<lambda>(n, t, r). (c # n, t, r)) (scan_name (c \<noteq> CHR '']'') cs)
      else if c = CHR ''{'' then Inl ValueError
      else if c = CHR ''['' then map_sum id (\<lambda>(n, t, r). (c # n, t, r)) (scan_name True cs)
      else if c = CHR ''}'' \<or> c = CHR '':'' \<or> c = CHR ''!'' then Inr ([], c, cs)
      else map_sum id (\<lambda>(n, t, r). (c # n, t, r)) (scan_name False cs))"

text \<open>The scan of a format spec, to the brace that closes the field; braces nest.\<close>

fun scan_spec :: "nat \<Rightarrow> string \<Rightarrow> fmt_error + (string \<times> string)" where
  "scan_spec count [] = Inl ValueError"
| "scan_spec count (c # cs) =
     (if c = CHR ''{'' then map_sum id (\<lambda>(sp, r). (c # sp, r)) (scan_spec (count + 1) cs)
      else if c = CHR ''}'' then
        (if count - 1 = 0 then Inr ([], cs)
         else map_sum id (\<lambda>(sp, r). (c # sp, r)) (scan_spec (count - 1) cs))
      else map_sum id (\<lambda>(sp, r). (c # sp, r)) (scan_spec count cs))"

type_synonym fmt_field = "string \<times> char option \<times> string"

definition parse_field :: "string \<Rightarrow> fmt_error + (fmt_field \<times> string)" where
  "parse_field s =
     (case scan_name False s of
        Inl e \<Rightarrow> Inl e
      | Inr (name, t, r) \<Rightarrow>
          if t = CHR ''}'' then Inr ((name, None, []), r)
          else if t = CHR ''!'' then
            (case r of
               [] \<Rightarrow> Inl ValueError
             | conv # r1 \<Rightarrow>
                 (case r1 of
                    [] \<Rightarrow> Inl ValueError
                  | c2 # r2 \<Rightarrow>
                      if c2 = CHR ''}'' then Inr ((name, Some conv, []), r2)
                      else if c2 \<noteq> CHR '':'' then Inl ValueError
                      else map_sum id (\<lambda>(sp, r3). ((name, Some conv, sp), r3))
                             (scan_spec 1 r2)))
          else map_sum id (\<lambda>(sp, r3). ((name, None, sp), r3)) (scan_spec 1 r))"

definition is_digit :: "char \<Rightarrow> bool" where
  "is_digit c = (c \<in> set ''0123456789'')"

definition digits_value :: "string \<Rightarrow> int" where
  "digits_value s = foldl (\<lambda>n c. 10 * n + (of_char c - 48)) 0 s"

text \<open>
  The value of a parsed field (\<open>get_field_object\<close>, then the conversion, then the
  format spec). A number above \<open>PY_SSIZE_T_MAX\<close> raises \<open>ValueError\<close>.
\<close>

definition render_field ::
  "(string \<Rightarrow> json option) \<Rightarrow> fmt_field \<Rightarrow> (fmt_error + pytext) option" where
  "render_field kwargs fld =
     (case fld of (name, conv, spec) \<Rightarrow>
        (let first = takeWhile (\<lambda>c. c \<noteq> CHR ''.'' \<and> c \<noteq> CHR ''['') name;
             rest = dropWhile (\<lambda>c. c \<noteq> CHR ''.'' \<and> c \<noteq> CHR ''['') name
         in if first = [] then Some (Inl IndexError)
            else if list_all is_digit first then
              Some (Inl (if digits_value first > 9223372036854775807 then ValueError
                         else IndexError))
            else (case kwargs first of
                    None \<Rightarrow> Some (Inl (KeyError first))
                  | Some v \<Rightarrow>
                      if rest \<noteq> [] then None
                      else (case conv of
                              None \<Rightarrow> if spec = [] then Some (Inr [Str v]) else None
                            | Some c \<Rightarrow>
                                if c = CHR ''r'' then
                                  (if spec = [] then Some (Inr [Repr v]) else None)
                                else if c = CHR ''s'' then
                                  (if spec = [] then Some (Inr [Str v]) else None)
                                else if c = CHR ''a'' then
                                  (if spec = [] then Some (Inr [Ascii v]) else None)
                                else Some (Inl ValueError)))))"

definition emit :: "pytext \<Rightarrow> (fmt_error + pytext) option \<Rightarrow> (fmt_error + pytext) option" where
  "emit ps res = map_option (map_sum id ((@) ps)) res"

lemma scan_name_length:
  "scan_name b s = Inr (n, t, r) \<Longrightarrow> length r < length s"
  by (induction b s arbitrary: n rule: scan_name.induct)
     (auto split: if_splits sum.splits simp: map_sum_def)

lemma scan_spec_length:
  "scan_spec k s = Inr (sp, r) \<Longrightarrow> length r < length s"
  by (induction k s arbitrary: sp rule: scan_spec.induct)
     (auto split: if_splits sum.splits simp: map_sum_def)

lemma parse_field_length:
  "parse_field s = Inr (fld, r) \<Longrightarrow> length r < length s"
  by (auto simp: parse_field_def map_sum_def split: sum.splits if_splits list.splits
      dest!: scan_name_length scan_spec_length)

function str_format ::
  "(string \<Rightarrow> json option) \<Rightarrow> string \<Rightarrow> (fmt_error + pytext) option" where
  "str_format kwargs [] = Some (Inr [])"
| "str_format kwargs (c # s) =
     (if c = CHR ''{'' then
        (case s of
           [] \<Rightarrow> Some (Inl ValueError)
         | c' # s' \<Rightarrow>
             if c' = CHR ''{'' then emit [Chr c] (str_format kwargs s')
             else (case parse_field s of
                     Inl e \<Rightarrow> Some (Inl e)
                   | Inr (fld, r) \<Rightarrow>
                       (case render_field kwargs fld of
                          None \<Rightarrow> None
                        | Some (Inl e) \<Rightarrow> Some (Inl e)
                        | Some (Inr ps) \<Rightarrow> emit ps (str_format kwargs r))))
      else if c = CHR ''}'' then
        (case s of
           [] \<Rightarrow> Some (Inl ValueError)
         | c' # s' \<Rightarrow>
             if c' = CHR ''}'' then emit [Chr c] (str_format kwargs s')
             else Some (Inl ValueError))
      else emit [Chr c] (str_format kwargs s))"
  by pat_completeness auto
termination
  by (relation "measure (\<lambda>(kwargs, s). length s)")
     (auto dest: parse_field_length)








text \<open>
  Templates made of literal text without braces and of plain placeholders \<open>{key}\<close>: a
  key is plain when it is not empty, has none of the characters \<open>{ } [ . : !\<close> and is
  not a number.
\<close>

datatype token = Text string | Field string

fun unparse :: "token list \<Rightarrow> string" where
  "unparse [] = []"
| "unparse (Text s # ts) = s @ unparse ts"
| "unparse (Field k # ts) = CHR ''{'' # k @ CHR ''}'' # unparse ts"

definition plain_text :: "string \<Rightarrow> bool" where
  "plain_text s = list_all (\<lambda>c. c \<noteq> CHR ''{'' \<and> c \<noteq> CHR ''}'') s"

definition plain_key :: "string \<Rightarrow> bool" where
  "plain_key k =
     (k \<noteq> [] \<and> list_all (\<lambda>c. c \<notin> set ''{}[.:!'') k \<and> \<not> list_all is_digit k)"

fun simple_template :: "token list \<Rightarrow> bool" where
  "simple_template [] = True"
| "simple_template (Text s # ts) = (plain_text s \<and> simple_template ts)"
| "simple_template (Field k # ts) = (plain_key k \<and> simple_template ts)"

fun first_missing :: "(string \<Rightarrow> json option) \<Rightarrow> token list \<Rightarrow> string option" where
  "first_missing kwargs [] = None"
| "first_missing kwargs (Text s # ts) = first_missing kwargs ts"
| "first_missing kwargs (Field k # ts) =
     (case kwargs k of None \<Rightarrow> Some k | Some v \<Rightarrow> first_missing kwargs ts)"

fun substituted :: "(string \<Rightarrow> json option) \<Rightarrow> token list \<Rightarrow> pytext" where
  "substituted kwargs [] = []"
| "substituted kwargs (Text s # ts) = lit s @ substituted kwargs ts"
| "substituted kwargs (Field k # ts) =
     (case kwargs k of None \<Rightarrow> [] | Some v \<Rightarrow> [Str v]) @ substituted kwargs ts"

section \<open>Sample values\<close>

definition t0 :: datetime where
  "t0 = Datetime 0"

definition job1 :: Job where
  "job1 = \<lparr> j_job_id = ''job-1'', j_name = ''demo'', j_description = ''demo job'',
     j_status = J_RUNNING, j_worker_prompt_template = ''Process {file_path}'',
     j_unit_type = ''file'', j_total_units = 3, j_created_at = t0,
     j_completed_units = 1, j_failed_units = 1, j_max_workers = 4,
     j_started_at = None, j_completed_at = None, j_test_unit_id = None,
     j_test_passed = False, j_output_strategy = ''individual'',
     j_metadata = [(''executor_pid'', JInt 4242)],
     j_post_processing_prompt = None, j_post_processing_unit_id = None,
     j_bypass_failures = False \<rparr>"

definition unit1 :: WorkUnit where
  "unit1 = \<lparr> u_unit_id = ''unit-1'', u_job_id = ''job-1'', u_unit_type = ''file'',
     u_status = PROCESSING, u_payload = [(''file_path'', JStr ''a.txt'')],
     u_created_at = t0, u_assigned_at = Some (Datetime 1), u_started_at = Some (Datetime 2),
     u_completed_at = None, u_worker_id = Some ''worker-1'', u_result = None,
     u_error = None, u_retry_count = 0, u_max_retries = 3,
     u_execution_time_seconds = None, u_output_files = [], u_rendered_prompt = None,
     u_conversation = None, u_session_id = None, u_cost_usd = None,
     u_process_id = Some 777 \<rparr>"

definition unit2 :: WorkUnit where
  "unit2 = unit1\<lparr> u_unit_id := ''unit-2'', u_status := FAILED, u_error := Some ''boom'',
                   u_retry_count := 3, u_completed_at := Some (Datetime 5),
                   u_process_id := None \<rparr>"

definition repo1 :: Repository where
  "repo1 = \<lparr> db_jobs = [job_to_row job1],
             db_work_units = [unit_update_row unit1 (unit_to_row unit1),
                              unit_to_row unit2],
             db_workers = [], db_logs = [] \<rparr>"




definition worker1 :: WorkerProcess where
  "worker1 = \<lparr> w_worker_id = ''worker-1'', w_status = W_BUSY, w_job_id = Some ''job-1'',
     w_current_unit_id = Some ''unit-1'', w_process_id = None, w_started_at = Datetime 1,
     w_last_heartbeat = None, w_units_completed = 0, w_units_failed = 0,
     w_total_execution_time = 0 \<rparr>"

definition result_fail :: WorkerResult where
  "result_fail = \<lparr> r_success = False, r_output = None, r_error = Some ''boom'',
     r_execution_time = Some 2, r_output_files = [], r_metadata = [],
     r_conversation = [JDict [(''type'', JStr ''assistant'')]],
     r_rendered_prompt = Some ''Process a.txt'' \<rparr>"



definition repo_zero_cost :: Repository where
  "repo_zero_cost =
     \<lparr> db_jobs = [job_to_row job1],
       db_work_units =
         [unit_to_row (unit1\<lparr>u_status := COMPLETED, u_cost_usd := Some 0\<rparr>),
          unit_to_row (unit2\<lparr>u_status := COMPLETED, u_cost_usd := Some 0\<rparr>)],
       db_workers = [], db_logs = [] \<rparr>"




section \<open>Lemmas about the repository\<close>

text \<open>With no error reported, an update is its statement.\<close>

lemma no_faults_simp [simp]: "no_faults c = False"
  by (simp add: no_faults_def)

lemma update_job_no_faults [simp]:
  "update_job no_faults db job = (Inr True, update_job_rows job db)"
  by (simp add: update_job_def db_op_def get_connection_def conn_execute_def)

lemma update_work_unit_no_faults [simp]:
  "update_work_unit no_faults db unit =
     (Inr True, update_unit_rows (u_unit_id unit) (unit_update_row unit) db)"
  by (simp add: update_work_unit_def db_op_def get_connection_def conn_execute_def)

text \<open>The first row with a key, after an update of rows that keeps the keys.\<close>

lemma find_map_upd:
  assumes "\<And>r. key (f r) = key r"
  shows "find (\<lambda>r. key r = k) (map (\<lambda>r. if key r = k' then f r else r) xs)
           = map_option (\<lambda>r. if k = k' then f r else r) (find (\<lambda>r. key r = k) xs)"
  by (induction xs) (auto simp: assms)

lemma row_to_job_update:
  "row_to_job (job_update_row job row) =
     job\<lparr> j_job_id := jr_job_id row, j_name := jr_name row,
          j_description := jr_description row,
          j_worker_prompt_template := jr_worker_prompt_template row,
          j_unit_type := jr_unit_type row, j_total_units := jr_total_units row,
          j_created_at := jr_created_at row, j_max_workers := jr_max_workers row,
          j_output_strategy := jr_output_strategy row \<rparr>"
  by (simp add: row_to_job_def job_update_row_def bool_of_int_def int_of_bool_def)

lemma row_to_work_unit_update:
  "row_to_work_unit (unit_update_row unit row) =
     unit\<lparr> u_unit_id := ur_unit_id row, u_job_id := ur_job_id row,
           u_unit_type := ur_unit_type row, u_payload := ur_payload row,
           u_created_at := ur_created_at row, u_max_retries := ur_max_retries row,
           u_result := (if truthy_dict (u_result unit) then u_result unit else None),
           u_conversation :=
             (if truthy_list (u_conversation unit) then u_conversation unit else None) \<rparr>"
  by (simp add: row_to_work_unit_def unit_update_row_def)

lemma get_job_update_job_rows:
  "get_job (update_job_rows job db) job_id =
     map_option (\<lambda>row. if job_id = j_job_id job then row_to_job (job_update_row job row)
                        else row_to_job row)
       (find (\<lambda>r. jr_job_id r = job_id) (db_jobs db))"
proof -
  have key: "\<And>r. jr_job_id (job_update_row job r) = jr_job_id r"
    by (simp add: job_update_row_def)
  show ?thesis
    unfolding get_job_def update_job_rows_def
    by (simp add: find_map_upd [where key = jr_job_id, OF key] option.map_comp o_def if_distrib)
qed

lemma get_work_unit_update_unit_rows:
  assumes "\<And>r. ur_unit_id (f r) = ur_unit_id r"
  shows "get_work_unit (update_unit_rows uid f db) unit_id =
     map_option (\<lambda>row. if unit_id = uid then row_to_work_unit (f row)
                        else row_to_work_unit row)
       (find (\<lambda>r. ur_unit_id r = unit_id) (db_work_units db))"
  unfolding get_work_unit_def update_unit_rows_def
  by (simp add: find_map_upd [where key = ur_unit_id, OF assms] option.map_comp o_def if_distrib)

lemma get_job_update_unit_rows [simp]:
  "get_job (update_unit_rows uid f db) job_id = get_job db job_id"
  by (simp add: get_job_def update_unit_rows_def)

lemma get_work_unit_update_job_rows [simp]:
  "get_work_unit (update_job_rows job db) unit_id = get_work_unit db unit_id"
  by (simp add: get_work_unit_def update_job_rows_def)

lemma unit_update_row_id [simp]: "ur_unit_id (unit_update_row unit r) = ur_unit_id r"
  by (simp add: unit_update_row_def)




lemma get_job_SomeD:
  "get_job db job_id = Some job \<Longrightarrow>
     \<exists>row. find (\<lambda>r. jr_job_id r = job_id) (db_jobs db) = Some row \<and> job = row_to_job row"
  by (auto simp: get_job_def)





lemma repo1_unit1: "get_work_unit repo1 ''unit-1'' = Some unit1"
  by (simp add: get_work_unit_def repo1_def unit_to_row_def unit_update_row_def
      row_to_work_unit_def unit2_def unit1_def truthy_dict_def truthy_list_def)

lemma repo1_job1: "get_job repo1 ''job-1'' = Some job1"
  by (simp add: get_job_def repo1_def job_to_row_def row_to_job_def job1_def
      int_of_bool_def bool_of_int_def)




text \<open>The worker body: updates of the worker row and of \<open>process_id\<close>.\<close>

lemma update_worker_no_faults [simp]:
  "update_worker no_faults db worker = (Inr True, update_worker_rows worker db)"
  by (simp add: update_worker_def db_op_def get_connection_def conn_execute_def)

lemma set_work_unit_process_id_no_faults [simp]:
  "set_work_unit_process_id no_faults db unit_id p =
     (Inr True, update_unit_rows unit_id (\<lambda>r. r\<lparr>ur_process_id := p\<rparr>) db)"
  by (simp add: set_work_unit_process_id_def db_op_def get_connection_def conn_execute_def)

lemma get_work_unit_update_worker_rows [simp]:
  "get_work_unit (update_worker_rows w db) unit_id = get_work_unit db unit_id"
  by (simp add: get_work_unit_def update_worker_rows_def)

lemma get_job_update_worker_rows [simp]:
  "get_job (update_worker_rows w db) job_id = get_job db job_id"
  by (simp add: get_job_def update_worker_rows_def)

lemma row_to_work_unit_persisted:
  "row_to_work_unit (unit_update_row unit row) = persisted (row_to_work_unit row) unit"
  by (simp add: row_to_work_unit_update persisted_def) (simp add: row_to_work_unit_def)

lemma get_work_unit_after_update:
  "get_work_unit (update_unit_rows uid (unit_update_row unit) db) uid
     = map_option (\<lambda>u0. persisted u0 unit) (get_work_unit db uid)"
  by (simp add: get_work_unit_update_unit_rows row_to_work_unit_persisted)
     (simp add: get_work_unit_def option.map_comp o_def)

lemma get_work_unit_after_set_process_id:
  "get_work_unit (update_unit_rows uid (\<lambda>r. r\<lparr>ur_process_id := p\<rparr>) db) uid
     = map_option (\<lambda>u0. u0\<lparr>u_process_id := p\<rparr>) (get_work_unit db uid)"
  by (simp add: get_work_unit_update_unit_rows)
     (simp add: get_work_unit_def option.map_comp o_def row_to_work_unit_def)

lemma persisted_persisted [simp]: "persisted (persisted u0 a) b = persisted u0 b"
  by (simp add: persisted_def)

lemma persisted_process_id [simp]: "persisted (u0\<lparr>u_process_id := p\<rparr>) b = persisted u0 b"
  by (simp add: persisted_def)

text \<open>The worker body on a failed result of a unit with retries left: the unit it returns and
  the unit it leaves in the repository.\<close>

lemma execute_work_unit_retriable_failure:
  assumes "\<not> r_success result" "can_retry work_unit"
    "get_work_unit db (u_unit_id work_unit) = Some u0"
  shows "case execute_work_unit db job_id worker work_unit pid (Inr result)
                t_start t_return t_except t_finally of
           (db', worker', unit') \<Rightarrow>
             unit' = work_unit\<lparr> u_status := PENDING,
                       u_retry_count := u_retry_count work_unit + 1,
                       u_worker_id := None, u_assigned_at := None, u_started_at := None,
                       u_completed_at := Some t_return,
                       u_execution_time_seconds := r_execution_time result,
                       u_output_files := r_output_files result,
                       u_process_id := None,
                       u_rendered_prompt := r_rendered_prompt result,
                       u_conversation := Some (r_conversation result),
                       u_session_id :=
                         (if r_metadata result \<noteq> []
                          then json_to_str (dict_get (r_metadata result) ''session_id'')
                          else u_session_id work_unit),
                       u_cost_usd :=
                         (if r_metadata result \<noteq> []
                          then json_to_float (dict_get (r_metadata result) ''total_cost_usd'')
                          else u_cost_usd work_unit),
                       u_error := r_error result,
                       u_result := Some (result_to_dict result) \<rparr>
           \<and> get_work_unit db' (u_unit_id work_unit) = Some (persisted u0 unit')"
  using assms
  by (cases pid)
     (simp_all add: execute_work_unit_def Let_def on_unit_failed_def can_retry_def
        get_work_unit_after_update get_work_unit_after_set_process_id
        option.map_comp o_def split: prod.split)

text \<open>The job read back after \<open>update_job\<close>, and the counters after each operation.\<close>

lemma get_job_update_job_rows_same:
  assumes "get_job db job_id = Some job"
    and "j_job_id job' = j_job_id job" "j_name job' = j_name job"
    "j_description job' = j_description job"
    "j_worker_prompt_template job' = j_worker_prompt_template job"
    "j_unit_type job' = j_unit_type job" "j_total_units job' = j_total_units job"
    "j_created_at job' = j_created_at job" "j_max_workers job' = j_max_workers job"
    "j_output_strategy job' = j_output_strategy job"
  shows "get_job (update_job_rows job' db) job_id = Some job'"
proof -
  from assms(1) obtain row where
    row: "find (\<lambda>r. jr_job_id r = job_id) (db_jobs db) = Some row" "job = row_to_job row"
    using get_job_SomeD by blast
  have id: "jr_job_id row = job_id"
    using row(1) by (auto simp: find_Some_iff)
  have "j_job_id job' = job_id"
    using assms(2) row(2) id by (simp add: row_to_job_def)
  moreover have "row_to_job (job_update_row job' row) = job'"
    using assms(2-) row(2) by (simp add: row_to_job_update) (simp add: row_to_job_def)
  ultimately show ?thesis
    using row(1) by (simp add: get_job_update_job_rows)
qed






text \<open>\<open>reset_stuck_units\<close> seen through \<open>get_work_unit\<close>.\<close>

lemma find_map_key:
  assumes "\<And>r. key (g r) = key r"
  shows "find (\<lambda>r. key r = k) (map g xs) = map_option g (find (\<lambda>r. key r = k) xs)"
  by (induction xs) (simp_all add: assms)

lemma get_work_unit_reset_stuck_units:
  "get_work_unit (snd (reset_stuck_units db job_id)) unit_id
     = map_option (\<lambda>u. if u_job_id u = job_id \<and> (u_status u = ASSIGNED \<or> u_status u = PROCESSING)
                        then u\<lparr> u_status := PENDING, u_worker_id := None,
                                u_assigned_at := None, u_started_at := None \<rparr>
                        else u)
         (get_work_unit db unit_id)"
proof -
  let ?g = "\<lambda>r. if is_stuck job_id r
                 then r\<lparr>ur_status := PENDING, ur_worker_id := None,
                        ur_assigned_at := None, ur_started_at := None\<rparr>
                 else r"
  have key: "\<And>r. ur_unit_id (?g r) = ur_unit_id r"
    by simp
  have "find (\<lambda>r. ur_unit_id r = unit_id) (map ?g (db_work_units db))
          = map_option ?g (find (\<lambda>r. ur_unit_id r = unit_id) (db_work_units db))"
    using key by (rule find_map_key)
  then show ?thesis
    by (simp add: get_work_unit_def reset_stuck_units_def option.map_comp o_def)
       (auto simp: row_to_work_unit_def is_stuck_def intro!: option.map_cong)
qed

lemma get_job_reset_stuck_units [simp]:
  "get_job (snd (reset_stuck_units db job_id)) j = get_job db j"
  by (simp add: get_job_def reset_stuck_units_def)

lemma dict_get_dict_set: "dict_get (dict_set d k v) k' = (if k' = k then Some v else dict_get d k')"
  by (induction d) (auto simp: dict_get_def)

text \<open>The path of \<open>kill_executor\<close> on which the signal is sent: the job is marked
  \<open>failed\<close> with \<open>killed_at\<close>, and every unit of the job that was \<open>assigned\<close> or
  \<open>processing\<close> is \<open>pending\<close>.\<close>

lemma kill_executor_live_process:
  assumes job: "get_job db job_id = Some job"
    and pid: "dict_get (j_metadata job) ''executor_pid'' = Some pid" "truthy pid"
    and sent: "killpg = Sent \<or> kill = Sent"
  shows "succeeded (fst (kill_executor Sent killpg kill now db job_id))
       \<and> (\<exists>job'. get_job (snd (kill_executor Sent killpg kill now db job_id)) job_id = Some job'
             \<and> j_status job' = J_FAILED
             \<and> dict_get (j_metadata job') ''killed_at'' = Some (JStr now))
       \<and> (\<forall>unit_id u. get_work_unit db unit_id = Some u \<and> u_job_id u = job_id
               \<and> (u_status u = ASSIGNED \<or> u_status u = PROCESSING)
             \<longrightarrow> map_option u_status
                   (get_work_unit (snd (kill_executor Sent killpg kill now db job_id)) unit_id)
                  = Some PENDING)"
proof -
  let ?job' = "job\<lparr> j_status := J_FAILED,
                     j_metadata := dict_set (dict_set (j_metadata job) ''killed_at'' (JStr now))
                                     ''kill_reason'' (JStr ''User requested kill'') \<rparr>"
  have k: "(case killpg of Sent \<Rightarrow> Sent | _ \<Rightarrow> kill) = Sent"
    using sent by (cases killpg) auto
  have run: "kill_executor Sent killpg kill now db job_id
      = ([(''success'', JBool True), (''message'', JStr ''Job executor killed''), (''pid'', pid)],
         snd (reset_stuck_units (update_job_rows ?job' db) job_id))"
    using job pid k by (simp add: kill_executor_def Let_def)
  have j: "get_job (update_job_rows ?job' db) job_id = Some ?job'"
    by (rule get_job_update_job_rows_same [OF job]) simp_all
  show ?thesis
    unfolding run
    by (auto simp: succeeded_def dict_get_def j get_work_unit_reset_stuck_units
        dict_get_dict_set [unfolded dict_get_def])
qed

text \<open>\<open>get_job_total_cost\<close> in closed form.\<close>

lemma get_job_total_cost_eq:
  "get_job_total_cost db job_id =
     (let costs = List.map_filter ur_cost_usd
                    (filter (\<lambda>r. ur_job_id r = job_id) (db_work_units db))
      in if costs = [] \<or> sum_list costs = 0 then None else Some (sum_list costs))"
  by (simp add: get_job_total_cost_def sql_sum_def truthy_float_def Let_def)


lemma row_to_job_to_row [simp]: "row_to_job (job_to_row job) = job"
  by (simp add: row_to_job_def job_to_row_def bool_of_int_def int_of_bool_def)

lemma row_to_worker_to_row [simp]: "row_to_worker (worker_to_row worker) = worker"
  by (simp add: row_to_worker_def worker_to_row_def)













text \<open>Lemmas about the formatter.\<close>

lemma emit_Nil [simp]: "emit [] r = r"
  by (cases r) (auto simp: emit_def map_sum_def split: sum.splits)

lemma emit_emit [simp]: "emit ps (emit qs r) = emit (ps @ qs) r"
  by (cases r) (auto simp: emit_def map_sum_def split: sum.splits)

lemma emit_error [simp]: "emit ps (Some (Inl e)) = Some (Inl e)"
  by (simp add: emit_def)

lemma emit_text [simp]: "emit ps (Some (Inr qs)) = Some (Inr (ps @ qs))"
  by (simp add: emit_def)

lemma str_format_plain_text:
  "plain_text s \<Longrightarrow> str_format kwargs (s @ t) = emit (lit s) (str_format kwargs t)"
  by (induction s) (simp_all add: plain_text_def lit_def)

lemma scan_name_plain:
  "list_all (\<lambda>c. c \<notin> set ''{}[.:!'') k \<Longrightarrow>
     scan_name False (k @ CHR ''}'' # t) = Inr (k, CHR ''}'', t)"
  by (induction k) simp_all

lemma parse_field_plain:
  "plain_key k \<Longrightarrow> parse_field (k @ CHR ''}'' # t) = Inr ((k, None, []), t)"
  by (simp add: parse_field_def plain_key_def scan_name_plain)

lemma takeWhile_plain:
  assumes "list_all (\<lambda>c. c \<notin> set ''{}[.:!'') k"
  shows "takeWhile (\<lambda>c. c \<noteq> CHR ''.'' \<and> c \<noteq> CHR ''['') k = k"
    and "dropWhile (\<lambda>c. c \<noteq> CHR ''.'' \<and> c \<noteq> CHR ''['') k = []"
  using assms by (auto simp: takeWhile_eq_all_conv dropWhile_eq_Nil_conv list_all_iff)

lemma render_field_plain:
  "plain_key k \<Longrightarrow>
     render_field kwargs (k, None, []) =
       (case kwargs k of None \<Rightarrow> Some (Inl (KeyError k)) | Some v \<Rightarrow> Some (Inr [Str v]))"
  by (simp add: render_field_def plain_key_def takeWhile_plain Let_def split: option.split)

lemma str_format_plain_field:
  assumes "plain_key k"
  shows "str_format kwargs (CHR ''{'' # k @ CHR ''}'' # t) =
           (case kwargs k of
              None \<Rightarrow> Some (Inl (KeyError k))
            | Some v \<Rightarrow> emit [Str v] (str_format kwargs t))"
proof -
  from assms obtain c k' where k: "k = c # k'" "c \<noteq> CHR ''{''"
    by (cases k) (auto simp: plain_key_def)
  have "str_format kwargs (CHR ''{'' # k @ CHR ''}'' # t) =
          (case parse_field (k @ CHR ''}'' # t) of
             Inl e \<Rightarrow> Some (Inl e)
           | Inr (fld, r) \<Rightarrow>
               (case render_field kwargs fld of
                  None \<Rightarrow> None
                | Some (Inl e) \<Rightarrow> Some (Inl e)
                | Some (Inr ps) \<Rightarrow> emit ps (str_format kwargs r)))"
    using k by simp
  then show ?thesis
    using assms by (simp add: parse_field_plain render_field_plain split: option.split)
qed


lemma str_format_none_missing:
  "simple_template ts \<Longrightarrow> first_missing kwargs ts = None \<Longrightarrow>
     str_format kwargs (unparse ts) = Some (Inr (substituted kwargs ts))"
proof (induction ts rule: simple_template.induct)
  case 1
  then show ?case by simp
next
  case (2 s ts)
  then show ?case by (simp add: str_format_plain_text)
next
  case (3 k' ts)
  then show ?case
    by (cases "kwargs k'") (simp_all add: str_format_plain_field del: str_format.simps)
qed



section \<open>Claims\<close>







text \<open>
  Claim C3. The final job status that \<open>_determine_final_status\<close> returns is the value of
  the rule table for the six inputs: whether all units are done, whether all succeeded,
  \<open>bypass_failures\<close>, whether a post-processing prompt is present (Python truthiness:
  neither \<open>None\<close> nor empty), whether \<open>failed_units > 0\<close>, and the status of the
  post-processing unit if there is one. The rows are tried in the stated priority order.
\<close>

theorem determine_final_status_is_rule_table:
  "determine_final_status job post_unit =
     final_status_table
       (j_completed_units job + j_failed_units job = j_total_units job)
       (j_completed_units job = j_total_units job)
       (j_bypass_failures job)
       (truthy_str (j_post_processing_prompt job))
       (j_failed_units job > 0)
       (map_option u_status post_unit)"
  by (cases post_unit) (simp_all add: determine_final_status_def final_status_table_def Let_def)

theorem determine_final_status_is_rule_table_witness:
  "determine_final_status (job1\<lparr>j_completed_units := 3, j_failed_units := 0\<rparr>) None
     = J_COMPLETED
   \<and> determine_final_status job1 None = J_PAUSED
   \<and> determine_final_status (job1\<lparr>j_completed_units := 2\<rparr>) None = J_FAILED
   \<and> determine_final_status (job1\<lparr>j_completed_units := 3, j_failed_units := 0\<rparr>)
         (Some (unit1\<lparr>u_status := FAILED\<rparr>)) = J_FAILED"
  using determine_final_status_is_rule_table [of "job1\<lparr>j_completed_units := 3, j_failed_units := 0\<rparr>" None]
    determine_final_status_is_rule_table [of job1 None]
    determine_final_status_is_rule_table [of "job1\<lparr>j_completed_units := 2\<rparr>" None]
    determine_final_status_is_rule_table
      [of "job1\<lparr>j_completed_units := 3, j_failed_units := 0\<rparr>" "Some (unit1\<lparr>u_status := FAILED\<rparr>)"]
  by (simp add: final_status_table_def job1_def unit1_def truthy_str_def)

text \<open>
  Claim C4 fails on the code where the executor process is already gone: for the sample
  repository, whose unit \<open>unit-1\<close> is in status \<open>processing\<close>, \<open>kill_executor\<close>
  returns success and marks the job \<open>failed\<close>, and the unit is still \<open>processing\<close>
  afterwards. That path returns before \<open>reset_stuck_units\<close>; the path on which the
  signal is sent calls it (lemma \<open>kill_executor_live_process\<close>).
\<close>

theorem kill_executor_already_dead_keeps_stuck_units:
  "succeeded (fst (kill_executor ProcessLookupError Sent Sent ''2026-01-01T00:00:00''
                     repo1 ''job-1''))
   \<and> map_option j_status
        (get_job (snd (kill_executor ProcessLookupError Sent Sent ''2026-01-01T00:00:00''
                         repo1 ''job-1'')) ''job-1'') = Some J_FAILED
   \<and> map_option u_status (get_work_unit repo1 ''unit-1'') = Some PROCESSING
   \<and> map_option u_status
        (get_work_unit (snd (kill_executor ProcessLookupError Sent Sent ''2026-01-01T00:00:00''
                               repo1 ''job-1'')) ''unit-1'') = Some PROCESSING"
proof -
  let ?job' = "job1\<lparr> j_status := J_FAILED,
                      j_metadata := dict_set (dict_set (j_metadata job1) ''killed_at''
                                                (JStr ''2026-01-01T00:00:00''))
                                      ''kill_reason''
                                      (JStr ''User requested kill (process already dead)'') \<rparr>"
  have pid: "dict_get (j_metadata job1) ''executor_pid'' = Some (JInt 4242)"
    by (simp add: job1_def dict_get_def)
  have run: "kill_executor ProcessLookupError Sent Sent ''2026-01-01T00:00:00'' repo1 ''job-1''
      = ([(''success'', JBool True),
          (''message'', JStr ''Process was already dead, job marked as failed'')],
         update_job_rows ?job' repo1)"
    using repo1_job1 pid by (simp add: kill_executor_def Let_def)
  have j: "get_job (update_job_rows ?job' repo1) ''job-1'' = Some ?job'"
    by (rule get_job_update_job_rows_same [OF repo1_job1]) simp_all
  show ?thesis
    unfolding run using repo1_unit1
    by (simp add: succeeded_def dict_get_def j) (simp add: unit1_def)
qed



text \<open>
  Claim C6, as amended. When the driver returns a failed result for a unit with
  \<open>retry_count < max_retries\<close>, the unit that the worker body leaves in the repository
  has status \<open>pending\<close>, \<open>retry_count\<close> incremented by one and the assignment fields
  \<open>worker_id\<close>, \<open>assigned_at\<close>, \<open>started_at\<close> (and \<open>process_id\<close>) null. The
  fields of the failed attempt stay: \<open>error\<close> is the driver's error, \<open>result\<close> the
  driver's result as a dict, \<open>completed_at\<close> the time of the driver's return,
  \<open>execution_time_seconds\<close> and \<open>rendered_prompt\<close> the driver's, and
  \<open>conversation\<close> the driver's conversation (null when it is empty).
\<close>

theorem retriable_failure_keeps_attempt_fields:
  assumes "\<not> r_success result" "u_retry_count work_unit < u_max_retries work_unit"
    "get_work_unit db (u_unit_id work_unit) = Some u0"
  shows "\<exists>p. get_work_unit
               (fst (execute_work_unit db job_id worker work_unit pid (Inr result)
                       t_start t_return t_except t_finally))
               (u_unit_id work_unit) = Some p
           \<and> u_status p = PENDING
           \<and> u_retry_count p = u_retry_count work_unit + 1
           \<and> u_worker_id p = None \<and> u_assigned_at p = None \<and> u_started_at p = None
           \<and> u_process_id p = None
           \<and> u_error p = r_error result
           \<and> u_result p = Some (result_to_dict result)
           \<and> u_completed_at p = Some t_return
           \<and> u_execution_time_seconds p = r_execution_time result
           \<and> u_rendered_prompt p = r_rendered_prompt result
           \<and> u_conversation p
               = (if r_conversation result = [] then None else Some (r_conversation result))"
proof -
  have "can_retry work_unit"
    using assms(2) by (simp add: can_retry_def)
  from execute_work_unit_retriable_failure [OF assms(1) this assms(3),
      where job_id = job_id and worker = worker and pid = pid and t_start = t_start
        and t_return = t_return and t_except = t_except and t_finally = t_finally]
  show ?thesis
    by (auto simp: persisted_def truthy_dict_def truthy_list_def result_to_dict_def
        split: prod.splits)
qed

theorem retriable_failure_keeps_attempt_fields_witness:
  "\<not> r_success result_fail \<and> u_retry_count unit1 < u_max_retries unit1
   \<and> get_work_unit repo1 (u_unit_id unit1) = Some unit1
   \<and> map_option u_status
        (get_work_unit
           (fst (execute_work_unit repo1 ''job-1'' worker1 unit1 (Some 777) (Inr result_fail)
                   (Datetime 10) (Datetime 20) (Datetime 30) (Datetime 40))) ''unit-1'')
       = Some PENDING
   \<and> map_option u_retry_count
        (get_work_unit
           (fst (execute_work_unit repo1 ''job-1'' worker1 unit1 (Some 777) (Inr result_fail)
                   (Datetime 10) (Datetime 20) (Datetime 30) (Datetime 40))) ''unit-1'')
       = Some 1
   \<and> map_option u_worker_id
        (get_work_unit
           (fst (execute_work_unit repo1 ''job-1'' worker1 unit1 (Some 777) (Inr result_fail)
                   (Datetime 10) (Datetime 20) (Datetime 30) (Datetime 40))) ''unit-1'')
       = Some None"
  using retriable_failure_keeps_attempt_fields [where result = result_fail
      and work_unit = unit1 and db = repo1 and ?u0.0 = unit1 and job_id = "''job-1''"
      and worker = worker1 and pid = "Some 777" and t_start = "Datetime 10"
      and t_return = "Datetime 20" and t_except = "Datetime 30" and t_finally = "Datetime 40"]
    repo1_unit1
  by (auto simp: result_fail_def unit1_def)

text \<open>
  Claim C6 as stated fails: after the retry transition of the sample unit is persisted,
  its \<open>error\<close>, \<open>completed_at\<close> and \<open>result\<close> are not null.
\<close>

theorem retriable_failure_leaves_error_and_result:
  "\<not> r_success result_fail \<and> u_retry_count unit1 < u_max_retries unit1
   \<and> map_option u_error
        (get_work_unit
           (fst (execute_work_unit repo1 ''job-1'' worker1 unit1 (Some 777) (Inr result_fail)
                   (Datetime 10) (Datetime 20) (Datetime 30) (Datetime 40))) ''unit-1'')
       = Some (Some ''boom'')
   \<and> map_option u_completed_at
        (get_work_unit
           (fst (execute_work_unit repo1 ''job-1'' worker1 unit1 (Some 777) (Inr result_fail)
                   (Datetime 10) (Datetime 20) (Datetime 30) (Datetime 40))) ''unit-1'')
       = Some (Some (Datetime 20))
   \<and> map_option u_result
        (get_work_unit
           (fst (execute_work_unit repo1 ''job-1'' worker1 unit1 (Some 777) (Inr result_fail)
                   (Datetime 10) (Datetime 20) (Datetime 30) (Datetime 40))) ''unit-1'')
       = Some (Some (result_to_dict result_fail))"
proof -
  have r: "\<not> r_success result_fail" by (simp add: result_fail_def)
  have c: "can_retry unit1" by (simp add: can_retry_def unit1_def)
  have u: "get_work_unit repo1 (u_unit_id unit1) = Some unit1"
    using repo1_unit1 by (simp add: unit1_def)
  from execute_work_unit_retriable_failure [OF r c u, where job_id = "''job-1''"
      and worker = worker1 and pid = "Some 777" and t_start = "Datetime 10"
      and t_return = "Datetime 20" and t_except = "Datetime 30" and t_finally = "Datetime 40"]
  show ?thesis
    by (auto simp: persisted_def truthy_dict_def truthy_list_def result_to_dict_def
        result_fail_def unit1_def split: prod.splits)
qed







text \<open>
  Claim C9 fails on the code where the recorded costs sum to zero: the two units of the
  sample repository each have the recorded cost 0, and \<open>get_job_total_cost\<close> returns
  \<open>None\<close>, not the sum. In general the function returns the sum of the recorded costs
  only when that sum is not zero (lemma \<open>get_job_total_cost_eq\<close>).
\<close>

theorem get_job_total_cost_zero_sum_is_none:
  "List.map_filter ur_cost_usd
     (filter (\<lambda>r. ur_job_id r = ''job-1'') (db_work_units repo_zero_cost)) = [0, 0]
   \<and> get_job_total_cost repo_zero_cost ''job-1'' = None"
  by (simp add: get_job_total_cost_def sql_sum_def truthy_float_def Let_def
      repo_zero_cost_def unit_to_row_def unit1_def unit2_def List.map_filter_simps)



end
